theory Spec2Isabelle
  imports Main "HOL-Library.Word"
begin

unbundle bit_operations_syntax

section \<open>The platform the driver runs on\<close>

text \<open>
  The driver talks to the chip through the Arduino core: the \<^verbatim>\<open>Wire\<close> object (two-wire
  bus), \<^verbatim>\<open>pinMode\<close>, \<^verbatim>\<open>digitalWrite\<close>, \<^verbatim>\<open>delay\<close> and \<^verbatim>\<open>attachInterrupt\<close>. None of
  these is part of the repository. Every call the driver issues is appended to a trace,
  in program order, with the arguments it was given; what the platform answers
  is taken from an \<open>environment\<close>, which may answer differently at every point of the
  trace.
\<close>

type_synonym byte = "8 word"

datatype pin_mode = INPUT_PULLUP | OUTPUT

datatype pin_level = HIGH | LOW

datatype hw_call =
    Wire_begin int int
  | Wire_beginTransmission int
  | Wire_write byte
  | Wire_endTransmission bool
  | Wire_requestFrom int nat bool
  | Wire_read
  | pinMode int pin_mode
  | digitalWrite int pin_level
  | delay nat
  | attachInterrupt int int

text \<open>
  \<open>endTransmission_result e tr\<close> is the completion status \<^verbatim>\<open>Wire.endTransmission\<close> returns
  when it is called after the calls \<open>tr\<close> (0 is success); \<open>read_result e tr\<close> is the
  \<^verbatim>\<open>int\<close> that \<^verbatim>\<open>Wire.read()\<close> returns when called after \<open>tr\<close> (a byte, or -1 when the
  receive buffer is empty); \<open>indeterminate e tr i\<close> is what the \<open>i\<close>-th cell of a local
  array that was declared without an initialiser holds when a function is entered after
  \<open>tr\<close>.
\<close>

record environment =
  endTransmission_result :: "hw_call list \<Rightarrow> byte"
  read_result :: "hw_call list \<Rightarrow> int"
  indeterminate :: "hw_call list \<Rightarrow> nat \<Rightarrow> byte"

text \<open>
  The code takes the device address \<^verbatim>\<open>CST816S_ADDRESS\<close> and the enumerators of \<^verbatim>\<open>GESTURE\<close>
  from the header \<^verbatim>\<open>CST816S.h\<close>. They are integer constant expressions, and parameters
  here: every theorem holds for whatever values the header gives them.
\<close>

record header =
  CST816S_ADDRESS :: int
  NONE :: int
  SWIPE_DOWN :: int
  SWIPE_UP :: int
  SWIPE_LEFT :: int
  SWIPE_RIGHT :: int
  SINGLE_CLICK :: int
  DOUBLE_CLICK :: int
  LONG_PRESS :: int

section \<open>The driver object\<close>

text \<open>
  \<^verbatim>\<open>data_struct\<close> as the code uses it: three bytes decoded from the touch packet, the two
  coordinates (integers; the values the code stores never exceed 4095, so no integer
  width is exceeded) and the version fields read by \<^verbatim>\<open>begin\<close>.
\<close>

record data_struct =
  gestureID :: byte
  points :: byte
  event :: byte
  x :: int
  y :: int
  version :: byte
  versionInfo :: "byte list"

text \<open>
  The object's members (the leading underscore of \<^verbatim>\<open>_sda\<close>, \<^verbatim>\<open>_scl\<close>, \<^verbatim>\<open>_rst\<close>, \<^verbatim>\<open>_irq\<close>
  and \<^verbatim>\<open>_event_available\<close> is dropped), together with the trace \<open>hw\<close> of platform calls
  issued so far and the state \<open>host\<close> of the application. The user callback is a
  \<^verbatim>\<open>std::function<void(void)>\<close>: it is handed no reference to the driver, and is modelled
  as a transformer of the application's state; an empty function object is \<open>None\<close>.
\<close>

record 'h CST816S =
  sda :: int
  scl :: int
  rst :: int
  irq :: int
  data :: data_struct
  event_available :: bool
  userISR :: "('h \<Rightarrow> 'h) option"
  hw :: "hw_call list"
  host :: 'h

text \<open>The constructor stores the four pins and touches nothing else.\<close>

definition construct :: "int \<Rightarrow> int \<Rightarrow> int \<Rightarrow> int \<Rightarrow> 'h CST816S \<Rightarrow> 'h CST816S" where
  "construct sda0 scl0 rst0 irq0 s = s\<lparr>sda := sda0, scl := scl0, rst := rst0, irq := irq0\<rparr>"

section \<open>Register transport\<close>

text \<open>
  \<^verbatim>\<open>for (int i = 0; i < length; i++) *reg_data++ = Wire.read();\<close>
  The caller's buffer is a list; cell \<open>i\<close> receives the value of the \<open>i\<close>-th
  \<^verbatim>\<open>Wire.read()\<close>, converted from \<^verbatim>\<open>int\<close> to \<^verbatim>\<open>uint8_t\<close>. The driver's own callers always
  pass a buffer of at least \<open>len\<close> cells.
\<close>

function read_loop ::
  "environment \<Rightarrow> nat \<Rightarrow> nat \<Rightarrow> byte list \<Rightarrow> hw_call list \<Rightarrow> byte list \<times> hw_call list" where
  "read_loop e i len reg_data tr =
     (if i < len
      then read_loop e (Suc i) len
             (reg_data[i := word_of_int (read_result e tr)]) (tr @ [Wire_read])
      else (reg_data, tr))"
  by pat_completeness auto
termination
  by (relation "measure (\<lambda>(e, i, len, reg_data, tr). len - i)") auto

declare read_loop.simps [simp del]

text \<open>
  \<^verbatim>\<open>i2c_read\<close>: the result is the returned status, the caller's buffer and the trace.
  \<^verbatim>\<open>return -1\<close> in a function returning \<^verbatim>\<open>uint8_t\<close> converts -1 to that type.
\<close>

definition i2c_read ::
  "environment \<Rightarrow> 16 word \<Rightarrow> byte \<Rightarrow> byte list \<Rightarrow> nat \<Rightarrow> hw_call list
     \<Rightarrow> byte \<times> byte list \<times> hw_call list" where
  "i2c_read e addr reg_addr reg_data len tr =
     (let tr1 = tr @ [Wire_beginTransmission (uint addr), Wire_write reg_addr];
          st = endTransmission_result e tr1;
          tr2 = tr1 @ [Wire_endTransmission True]
      in if st \<noteq> 0 then (- 1, reg_data, tr2)
         else (let tr3 = tr2 @ [Wire_requestFrom (uint addr) len True];
                   (buf, tr4) = read_loop e 0 len reg_data tr3
               in (0, buf, tr4)))"

text \<open>
  \<^verbatim>\<open>for (int i = 0; i < length; i++) Wire.write(*reg_data++);\<close>
\<close>

function write_loop :: "nat \<Rightarrow> nat \<Rightarrow> byte list \<Rightarrow> hw_call list \<Rightarrow> hw_call list" where
  "write_loop i len reg_data tr =
     (if i < len
      then write_loop (Suc i) len reg_data (tr @ [Wire_write (reg_data ! i)])
      else tr)"
  by pat_completeness auto
termination
  by (relation "measure (\<lambda>(i, len, reg_data, tr). len - i)") auto

declare write_loop.simps [simp del]

definition i2c_write ::
  "environment \<Rightarrow> byte \<Rightarrow> byte \<Rightarrow> byte list \<Rightarrow> nat \<Rightarrow> hw_call list \<Rightarrow> byte \<times> hw_call list" where
  "i2c_write e addr reg_addr reg_data len tr =
     (let tr1 = tr @ [Wire_beginTransmission (uint addr), Wire_write reg_addr];
          tr2 = write_loop 0 len reg_data tr1;
          st = endTransmission_result e tr2;
          tr3 = tr2 @ [Wire_endTransmission True]
      in if st \<noteq> 0 then (- 1, tr3) else (0, tr3))"

section \<open>Decoding a touch packet\<close>

text \<open>
  \<^verbatim>\<open>read_touch\<close>: \<^verbatim>\<open>data_raw\<close> is a local array of 8 bytes without an initialiser; the
  status \<^verbatim>\<open>i2c_read\<close> returns is not looked at. The operands of \<^verbatim>\<open>>>\<close>, \<^verbatim>\<open>&\<close>, \<^verbatim>\<open><<\<close> and
  \<^verbatim>\<open>+\<close> are promoted to \<^verbatim>\<open>int\<close>; \<^verbatim>\<open>event\<close> is a byte again.
\<close>

definition read_touch :: "header \<Rightarrow> environment \<Rightarrow> 'h CST816S \<Rightarrow> 'h CST816S" where
  "read_touch h e s =
     (let data_raw0 = map (indeterminate e (hw s)) [0..<8];
          (r, data_raw, tr) =
             i2c_read e (word_of_int (CST816S_ADDRESS h)) 0x01 data_raw0 6 (hw s)
      in s\<lparr>data := (data s)
              \<lparr>gestureID := data_raw ! 0,
               points := data_raw ! 1,
               event := word_of_int (drop_bit 6 (uint (data_raw ! 2))),
               x := push_bit 8 (uint (data_raw ! 2) AND 0xF) + uint (data_raw ! 3),
               y := push_bit 8 (uint (data_raw ! 4) AND 0xF) + uint (data_raw ! 5)\<rparr>,
            hw := tr\<rparr>)"

section \<open>Interrupt handler and polling\<close>

definition handleISR :: "'h CST816S \<Rightarrow> 'h CST816S" where
  "handleISR s =
     (let s1 = s\<lparr>event_available := True\<rparr>
      in case userISR s1 of
           None \<Rightarrow> s1
         | Some callback \<Rightarrow> s1\<lparr>host := callback (host s1)\<rparr>)"

definition attachUserInterrupt :: "('h \<Rightarrow> 'h) option \<Rightarrow> 'h CST816S \<Rightarrow> 'h CST816S" where
  "attachUserInterrupt callback s = s\<lparr>userISR := callback\<rparr>"

definition available :: "header \<Rightarrow> environment \<Rightarrow> 'h CST816S \<Rightarrow> bool \<times> 'h CST816S" where
  "available h e s =
     (if event_available s
      then (True, (read_touch h e s)\<lparr>event_available := False\<rparr>)
      else (False, s))"

text \<open>
  \<^verbatim>\<open>begin\<close> (the name is a keyword here): the bus and the pins are set up, the reset line is
  pulsed, one byte of register \<^verbatim>\<open>0x15\<close> is read into \<^verbatim>\<open>data.version\<close> and three bytes of
  register \<^verbatim>\<open>0xA7\<close> into the array \<^verbatim>\<open>data.versionInfo\<close>, and \<^verbatim>\<open>handleISR\<close> is attached to
  the interrupt pin. Neither status is looked at.
\<close>

definition begin_CST816S :: "header \<Rightarrow> environment \<Rightarrow> int \<Rightarrow> 'h CST816S \<Rightarrow> 'h CST816S" where
  "begin_CST816S h e interrupt s =
     (let tr0 = hw s @ [Wire_begin (sda s) (scl s),
                        pinMode (irq s) INPUT_PULLUP, pinMode (rst s) OUTPUT,
                        digitalWrite (rst s) HIGH, delay 50,
                        digitalWrite (rst s) LOW, delay 5,
                        digitalWrite (rst s) HIGH, delay 50];
          (r1, ver, tr1) =
             i2c_read e (word_of_int (CST816S_ADDRESS h)) 0x15 [version (data s)] 1 tr0;
          tr2 = tr1 @ [delay 5];
          (r2, info, tr3) =
             i2c_read e (word_of_int (CST816S_ADDRESS h)) 0xA7 (versionInfo (data s)) 3 tr2
      in s\<lparr>data := (data s)\<lparr>version := hd ver, versionInfo := info\<rparr>,
            hw := tr3 @ [attachInterrupt (irq s) interrupt]\<rparr>)"

section \<open>Configuration\<close>

text \<open>
  Every configuration member function is declared \<^verbatim>\<open>void\<close>: its model returns the object
  after the call, and the status \<^verbatim>\<open>i2c_write\<close> returns is dropped where the code drops
  it.
\<close>

definition enable_double_click :: "header \<Rightarrow> environment \<Rightarrow> 'h CST816S \<Rightarrow> 'h CST816S" where
  "enable_double_click h e s =
     (let enableDoubleTap = 0x01
      in s\<lparr>hw := snd (i2c_write e (word_of_int (CST816S_ADDRESS h)) 0xEC
                        [enableDoubleTap] 1 (hw s))\<rparr>)"

definition set_motion_mask :: "header \<Rightarrow> environment \<Rightarrow> byte \<Rightarrow> 'h CST816S \<Rightarrow> 'h CST816S" where
  "set_motion_mask h e msk s =
     s\<lparr>hw := snd (i2c_write e (word_of_int (CST816S_ADDRESS h)) 0xEC [msk] 1 (hw s))\<rparr>"

definition set_irq_control :: "header \<Rightarrow> environment \<Rightarrow> byte \<Rightarrow> 'h CST816S \<Rightarrow> 'h CST816S" where
  "set_irq_control h e msk s =
     s\<lparr>hw := snd (i2c_write e (word_of_int (CST816S_ADDRESS h)) 0xFA [msk] 1 (hw s))\<rparr>"

definition enable_double_click_interrupt_only ::
  "header \<Rightarrow> environment \<Rightarrow> 'h CST816S \<Rightarrow> 'h CST816S" where
  "enable_double_click_interrupt_only h e s =
     set_irq_control h e 0x10 (set_motion_mask h e 0x01 s)"

definition disable_auto_sleep :: "header \<Rightarrow> environment \<Rightarrow> 'h CST816S \<Rightarrow> 'h CST816S" where
  "disable_auto_sleep h e s =
     (let disableAutoSleep = 0xFE
      in s\<lparr>hw := snd (i2c_write e (word_of_int (CST816S_ADDRESS h)) 0xFE
                        [disableAutoSleep] 1 (hw s))\<rparr>)"

definition enable_auto_sleep :: "header \<Rightarrow> environment \<Rightarrow> 'h CST816S \<Rightarrow> 'h CST816S" where
  "enable_auto_sleep h e s =
     (let enableAutoSleep = 0x00
      in s\<lparr>hw := snd (i2c_write e (word_of_int (CST816S_ADDRESS h)) 0xFE
                        [enableAutoSleep] 1 (hw s))\<rparr>)"

text \<open>
  \<^verbatim>\<open>seconds\<close> is an \<^verbatim>\<open>int\<close>; it is only compared and converted, so every value of any
  width of \<^verbatim>\<open>int\<close> is an integer here. \<^verbatim>\<open>static_cast<byte>\<close> is \<open>word_of_int\<close>.
\<close>

definition set_auto_sleep_time :: "header \<Rightarrow> environment \<Rightarrow> int \<Rightarrow> 'h CST816S \<Rightarrow> 'h CST816S" where
  "set_auto_sleep_time h e seconds s =
     (let seconds1 = (if seconds < 1 then 1 else if seconds > 255 then 255 else seconds);
          sleepTime = word_of_int seconds1
      in s\<lparr>hw := snd (i2c_write e (word_of_int (CST816S_ADDRESS h)) 0xF9
                        [sleepTime] 1 (hw s))\<rparr>)"

definition sleep :: "header \<Rightarrow> environment \<Rightarrow> 'h CST816S \<Rightarrow> 'h CST816S" where
  "sleep h e s =
     (let tr = hw s @ [digitalWrite (rst s) LOW, delay 5, digitalWrite (rst s) HIGH, delay 50];
          standby_value = 0x03
      in s\<lparr>hw := snd (i2c_write e (word_of_int (CST816S_ADDRESS h)) 0xA5
                        [standby_value] 1 tr)\<rparr>)"

section \<open>Gesture names\<close>

text \<open>
  \<^verbatim>\<open>switch (data.gestureID)\<close>: the byte is promoted to \<^verbatim>\<open>int\<close> and compared with the
  enumerators, in the order of the \<^verbatim>\<open>case\<close> labels. The language requires the labels of
  one \<^verbatim>\<open>switch\<close> to be pairwise different.
\<close>

definition gesture :: "header \<Rightarrow> 'h CST816S \<Rightarrow> string" where
  "gesture h s =
     (let g = uint (gestureID (data s))
      in if g = NONE h then ''NONE''
         else if g = SWIPE_DOWN h then ''SWIPE DOWN''
         else if g = SWIPE_UP h then ''SWIPE UP''
         else if g = SWIPE_LEFT h then ''SWIPE LEFT''
         else if g = SWIPE_RIGHT h then ''SWIPE RIGHT''
         else if g = SINGLE_CLICK h then ''SINGLE CLICK''
         else if g = DOUBLE_CLICK h then ''DOUBLE CLICK''
         else if g = LONG_PRESS h then ''LONG PRESS''
         else ''UNKNOWN'')"

section \<open>Observations and concrete inputs\<close>

text \<open>
  \<open>received e tr k\<close> is the byte that the \<open>k\<close>-th \<^verbatim>\<open>Wire.read()\<close> of a run of reads
  starting after the calls \<open>tr\<close> delivers, counting from 0.
\<close>

definition received :: "environment \<Rightarrow> hw_call list \<Rightarrow> nat \<Rightarrow> byte" where
  "received e tr k = word_of_int (read_result e (tr @ replicate k Wire_read))"

text \<open>\<open>polls h e k s\<close>: \<open>k\<close> calls of \<^verbatim>\<open>available()\<close> in a row, with no edge in between.\<close>

fun polls :: "header \<Rightarrow> environment \<Rightarrow> nat \<Rightarrow> 'h CST816S \<Rightarrow> bool list \<times> 'h CST816S" where
  "polls h e 0 s = ([], s)"
| "polls h e (Suc k) s =
     (let (r, s1) = available h e s;
          (rs, s2) = polls h e k s1
      in (r # rs, s2))"

text \<open>
  One instance of the header's constants, a bus on which every transaction completes and
  which delivers the packet \<open>example_packet\<close> to every run of reads, a bus on which no
  device acknowledges its address (completion status 2), and a driver object holding an
  earlier touch.
\<close>

definition example_header :: header where
  "example_header =
     \<lparr>CST816S_ADDRESS = 0x15, NONE = 0x00, SWIPE_DOWN = 0x02, SWIPE_UP = 0x01,
      SWIPE_LEFT = 0x03, SWIPE_RIGHT = 0x04, SINGLE_CLICK = 0x05, DOUBLE_CLICK = 0x0B,
      LONG_PRESS = 0x0C\<rparr>"

definition example_packet :: "int list" where
  "example_packet = [0x0B, 0x01, 0x81, 0x2C, 0x02, 0x64]"

definition env_ack :: environment where
  "env_ack =
     \<lparr>endTransmission_result = (\<lambda>tr. 0),
      read_result = (\<lambda>tr. let k = length (takeWhile (\<lambda>c. c = Wire_read) (rev tr))
                          in if k < 6 then example_packet ! k else - 1),
      indeterminate = (\<lambda>tr i. 0xAA)\<rparr>"

definition env_nack :: environment where
  "env_nack =
     \<lparr>endTransmission_result = (\<lambda>tr. 2),
      read_result = (\<lambda>tr. - 1),
      indeterminate = (\<lambda>tr i. 0xAA)\<rparr>"

definition touched :: "unit CST816S" where
  "touched =
     \<lparr>sda = 21, scl = 22, rst = 5, irq = 4,
      data = \<lparr>gestureID = 0x05, points = 1, event = 0, x = 120, y = 200,
              version = 0, versionInfo = [0, 0, 0]\<rparr>,
      event_available = False, userISR = None, hw = [], host = ()\<rparr>"

section \<open>Loops and transactions in closed form\<close>

lemma write_loop_single: "write_loop 0 (Suc 0) [b] tr = tr @ [Wire_write b]"
  by (simp add: write_loop.simps)

lemma i2c_write_single:
  "i2c_write e addr reg_addr [b] (Suc 0) tr =
     (if endTransmission_result e
           (tr @ [Wire_beginTransmission (uint addr), Wire_write reg_addr, Wire_write b]) \<noteq> 0
      then 255 else 0,
      tr @ [Wire_beginTransmission (uint addr), Wire_write reg_addr, Wire_write b,
            Wire_endTransmission True])"
  by (simp add: i2c_write_def write_loop_single Let_def)

lemma read_loop_trace:
  "snd (read_loop e i len buf tr) = tr @ replicate (len - i) Wire_read"
proof (induction e i len buf tr rule: read_loop.induct)
  case (1 e i len reg_data tr)
  show ?case
  proof (cases "i < len")
    case True
    then have "len - i = Suc (len - Suc i)" by simp
    with True 1 show ?thesis
      by (simp add: read_loop.simps [of e i])
  next
    case False
    then show ?thesis by (simp add: read_loop.simps [of e i])
  qed
qed

lemma read_loop_buffer:
  "i \<le> len \<Longrightarrow> len \<le> length buf \<Longrightarrow>
   fst (read_loop e i len buf tr) =
     take i buf @ map (received e tr) [0..<len - i] @ drop len buf"
proof (induction e i len buf tr rule: read_loop.induct)
  case (1 e i len reg_data tr)
  show ?case
  proof (cases "i < len")
    case True
    let ?v = "word_of_int (read_result e tr) :: byte"
    have shift: "map (received e tr) [0..<len - i] =
                 ?v # map (received e (tr @ [Wire_read])) [0..<len - Suc i]"
    proof -
      have "len - i = Suc (len - Suc i)" using True by simp
      then have "[0..<len - i] = 0 # map Suc [0..<len - Suc i]"
        by (simp add: upt_conv_Cons map_Suc_upt del: upt_Suc)
      then show ?thesis
        by (simp add: received_def comp_def replicate_append_same del: upt_Suc)
    qed
    have ih: "fst (read_loop e (Suc i) len (reg_data[i := ?v]) (tr @ [Wire_read])) =
              take (Suc i) (reg_data[i := ?v]) @
              map (received e (tr @ [Wire_read])) [0..<len - Suc i] @
              drop len (reg_data[i := ?v])"
      using 1 True by simp
    have tk: "take (Suc i) (reg_data[i := ?v]) = take i reg_data @ [?v]"
      using True 1(3) by (simp add: take_Suc_conv_app_nth)
    have dr: "drop len (reg_data[i := ?v]) = drop len reg_data"
      using True by simp
    show ?thesis
      using True by (simp add: read_loop.simps [of e i] ih tk dr shift)
  next
    case False
    with 1(2) have "i = len" by simp
    then show ?thesis by (simp add: read_loop.simps [of e len])
  qed
qed

lemma i2c_read_unfold:
  assumes "len \<le> length buf"
  shows "i2c_read e addr reg_addr buf len tr =
     (if endTransmission_result e
           (tr @ [Wire_beginTransmission (uint addr), Wire_write reg_addr]) \<noteq> 0
      then (255, buf,
            tr @ [Wire_beginTransmission (uint addr), Wire_write reg_addr,
                  Wire_endTransmission True])
      else (0,
            map (received e
                   (tr @ [Wire_beginTransmission (uint addr), Wire_write reg_addr,
                          Wire_endTransmission True, Wire_requestFrom (uint addr) len True]))
                [0..<len] @ drop len buf,
            tr @ [Wire_beginTransmission (uint addr), Wire_write reg_addr,
                  Wire_endTransmission True, Wire_requestFrom (uint addr) len True]
               @ replicate len Wire_read))"
proof -
  let ?tr3 = "tr @ [Wire_beginTransmission (uint addr), Wire_write reg_addr,
                    Wire_endTransmission True, Wire_requestFrom (uint addr) len True]"
  have "read_loop e 0 len buf ?tr3 =
        (fst (read_loop e 0 len buf ?tr3), snd (read_loop e 0 len buf ?tr3))"
    by simp
  also have "\<dots> = (map (received e ?tr3) [0..<len] @ drop len buf,
                   ?tr3 @ replicate len Wire_read)"
    using assms by (simp only: read_loop_buffer read_loop_trace) simp
  finally show ?thesis
    by (simp add: i2c_read_def Let_def)
qed

section \<open>Edges and polls\<close>

lemma handleISR_flag: "event_available (handleISR s)"
  by (simp add: handleISR_def Let_def split: option.split)

lemma handleISR_hw: "hw (handleISR s) = hw s"
  by (simp add: handleISR_def Let_def split: option.split)

lemma handleISR_data: "data (handleISR s) = data s"
  by (simp add: handleISR_def Let_def split: option.split)

lemma edges_hw: "hw ((handleISR ^^ n) s) = hw s"
  by (induction n) (simp_all add: handleISR_hw)

lemma edges_data: "data ((handleISR ^^ n) s) = data s"
  by (induction n) (simp_all add: handleISR_data)

lemma edges_flag: "0 < n \<Longrightarrow> event_available ((handleISR ^^ n) s)"
  by (cases n) (simp_all add: handleISR_flag)

lemma polls_idle: "\<not> event_available s \<Longrightarrow> polls h e k s = (replicate k False, s)"
  by (induction k) (simp_all add: available_def)

lemma available_pending:
  "event_available s \<Longrightarrow>
   available h e s = (True, (read_touch h e s)\<lparr>event_available := False\<rparr>)"
  by (simp add: available_def)

section \<open>The decode in closed form\<close>

lemma read_touch_unfold:
  "read_touch h e s =
     (let a = uint (word_of_int (CST816S_ADDRESS h) :: 16 word);
          tr1 = hw s @ [Wire_beginTransmission a, Wire_write 0x01];
          tr2 = tr1 @ [Wire_endTransmission True];
          tr3 = tr2 @ [Wire_requestFrom a 6 True];
          raw = (if endTransmission_result e tr1 \<noteq> 0
                 then map (indeterminate e (hw s)) [0..<8]
                 else map (received e tr3) [0..<6] @
                      [indeterminate e (hw s) 6, indeterminate e (hw s) 7])
      in s\<lparr>data := (data s)
              \<lparr>gestureID := raw ! 0,
               points := raw ! 1,
               event := word_of_int (drop_bit 6 (uint (raw ! 2))),
               x := push_bit 8 (uint (raw ! 2) AND 0xF) + uint (raw ! 3),
               y := push_bit 8 (uint (raw ! 4) AND 0xF) + uint (raw ! 5)\<rparr>,
            hw := (if endTransmission_result e tr1 \<noteq> 0 then tr2
                   else tr3 @ replicate 6 Wire_read)\<rparr>)"
proof -
  have len: "6 \<le> length (map (indeterminate e (hw s)) [0..<8])" by simp
  have dr: "drop 6 (map (indeterminate e (hw s)) [0..<8]) =
            [indeterminate e (hw s) 6, indeterminate e (hw s) 7]"
    by (simp add: drop_map upt_rec eval_nat_numeral)
  show ?thesis
    unfolding read_touch_def i2c_read_unfold [OF len] dr Let_def
    by (simp del: upt_Suc map_append)
qed

lemma read_touch_hw:
  "hw (read_touch h e s) =
     hw s @ [Wire_beginTransmission (uint (word_of_int (CST816S_ADDRESS h) :: 16 word)),
             Wire_write 0x01, Wire_endTransmission True] @
     (if endTransmission_result e
           (hw s @ [Wire_beginTransmission
                      (uint (word_of_int (CST816S_ADDRESS h) :: 16 word)),
                    Wire_write 0x01]) = 0
      then Wire_requestFrom (uint (word_of_int (CST816S_ADDRESS h) :: 16 word)) 6 True
             # replicate 6 Wire_read
      else [])"
  by (simp add: read_touch_unfold Let_def)

lemma packet_nth: "k < 6 \<Longrightarrow> (map f [0..<6] @ r) ! k = f k"
  by (simp add: nth_append del: upt_Suc)

lemma uninitialised_nth: "k < 8 \<Longrightarrow> map f [0..<8] ! k = f k"
  by (simp del: upt_Suc)

lemma coordinate_range:
  "0 \<le> push_bit 8 (uint (hi :: byte) AND 0xF) + uint (lo :: byte) \<and>
   push_bit 8 (uint hi AND 0xF) + uint lo \<le> 4095"
proof -
  have a: "0 \<le> uint hi AND 0xF" by simp
  have b: "uint hi AND 0xF \<le> 0xF" by (rule AND_upper2) simp
  have c: "0 \<le> uint lo" by simp
  have d: "uint lo < 256" using uint_bounded [of lo] by simp
  have "push_bit 8 (uint hi AND 0xF) = (uint hi AND 0xF) * 256"
    by (simp add: push_bit_eq_mult)
  with a b c d show ?thesis by linarith
qed

lemma clamp_byte: "uint (word_of_int (max 1 (min 255 k)) :: byte) = max 1 (min 255 k)"
proof -
  have "0 \<le> max 1 (min 255 k)" "max 1 (min 255 k) < 2 ^ 8" by simp_all
  then have "take_bit 8 (max 1 (min 255 k)) = max 1 (min 255 k)"
    by (rule take_bit_int_eq_self)
  then show ?thesis
    by (simp add: uint_word_of_int)
qed

lemma env_ack_received:
  "tr \<noteq> [] \<Longrightarrow> last tr \<noteq> Wire_read \<Longrightarrow>
   received env_ack tr k = word_of_int (if k < 6 then example_packet ! k else - 1)"
proof -
  assume ne: "tr \<noteq> []" and l: "last tr \<noteq> Wire_read"
  then obtain ys z where tr: "tr = ys @ [z]" and z: "z \<noteq> Wire_read"
    by (metis append_butlast_last_id)
  have "takeWhile (\<lambda>c. c = Wire_read) (rev (tr @ replicate k Wire_read)) =
        replicate k Wire_read"
    using z unfolding tr by (induction k) (simp_all add: replicate_append_same)
  then show ?thesis
    by (simp add: received_def env_ack_def Let_def)
qed

text \<open>
  When the address phase of the decode fails, \<^verbatim>\<open>i2c_read\<close> returns before it has written
  \<^verbatim>\<open>data_raw\<close>, and \<^verbatim>\<open>read_touch\<close> assigns all five fields from the array as it found it.
\<close>

lemma failed_decode_fields:
  assumes "endTransmission_result e
             (hw s @ [Wire_beginTransmission (uint (word_of_int (CST816S_ADDRESS h) :: 16 word)),
                      Wire_write 0x01]) \<noteq> 0"
  shows "data (read_touch h e s) =
           (data s)
             \<lparr>gestureID := indeterminate e (hw s) 0,
              points := indeterminate e (hw s) 1,
              event := word_of_int (drop_bit 6 (uint (indeterminate e (hw s) 2))),
              x := push_bit 8 (uint (indeterminate e (hw s) 2) AND 0xF)
                     + uint (indeterminate e (hw s) 3),
              y := push_bit 8 (uint (indeterminate e (hw s) 4) AND 0xF)
                     + uint (indeterminate e (hw s) 5)\<rparr>"
  using assms
  by (simp add: read_touch_unfold Let_def uninitialised_nth numeral_2_eq_2 del: upt_Suc)

section \<open>Properties of the driver\<close>

text \<open>
  C1. The claim: when the transport read of a decode fails, every field of the touch
  event keeps its value. The code does otherwise. Evaluated with an edge pending, an
  earlier touch (gesture 5 at 120, 200) stored, a bus whose address phase ends with
  status 2 and a stack holding \<^verbatim>\<open>0xAA\<close>: \<^verbatim>\<open>i2c_read\<close> reports 255, \<^verbatim>\<open>available()\<close> still
  returns true, and gesture, points, event, x and y are all replaced by values decoded
  from the unwritten buffer.
\<close>

theorem failed_decode_overwrites_touch:
  "fst (i2c_read env_nack (word_of_int (CST816S_ADDRESS example_header)) 0x01
          (map (indeterminate env_nack (hw (handleISR touched))) [0..<8]) 6
          (hw (handleISR touched))) = 255 \<and>
   data (handleISR touched) =
     \<lparr>gestureID = 0x05, points = 1, event = 0, x = 120, y = 200,
      version = 0, versionInfo = [0, 0, 0]\<rparr> \<and>
   fst (available example_header env_nack (handleISR touched)) \<and>
   data (snd (available example_header env_nack (handleISR touched))) =
     \<lparr>gestureID = 0xAA, points = 0xAA, event = 2, x = 0xAAA, y = 0xAAA,
      version = 0, versionInfo = [0, 0, 0]\<rparr>"
  by (simp add: available_def handleISR_def read_touch_def i2c_read_def Let_def
        touched_def env_nack_def example_header_def)

text \<open>
  C2. When the address phase of the decode succeeds, the coordinates stored are
  \<open>((byte2 AND 0xF) << 8) + byte3\<close> and \<open>((byte4 AND 0xF) << 8) + byte5\<close> of the six bytes
  the bus delivered, whatever those bytes are, and each lies between 0 and 4095.
\<close>

theorem decode_coordinates:
  assumes "endTransmission_result e
             (hw s @ [Wire_beginTransmission (uint (word_of_int (CST816S_ADDRESS h) :: 16 word)),
                      Wire_write 0x01]) = 0"
  shows "let pkt = received e
                     (hw s @ [Wire_beginTransmission
                                (uint (word_of_int (CST816S_ADDRESS h) :: 16 word)),
                              Wire_write 0x01, Wire_endTransmission True,
                              Wire_requestFrom
                                (uint (word_of_int (CST816S_ADDRESS h) :: 16 word)) 6 True]);
             d = data (read_touch h e s)
         in x d = push_bit 8 (uint (pkt 2) AND 0xF) + uint (pkt 3) \<and>
            y d = push_bit 8 (uint (pkt 4) AND 0xF) + uint (pkt 5) \<and>
            0 \<le> x d \<and> x d \<le> 4095 \<and> 0 \<le> y d \<and> y d \<le> 4095"
proof -
  let ?a = "uint (word_of_int (CST816S_ADDRESS h) :: 16 word)"
  let ?pkt = "received e (hw s @ [Wire_beginTransmission ?a, Wire_write 0x01,
                                  Wire_endTransmission True, Wire_requestFrom ?a 6 True])"
  let ?d = "data (read_touch h e s)"
  have xd: "x ?d = push_bit 8 (uint (?pkt 2) AND 0xF) + uint (?pkt 3)"
    using assms by (simp add: read_touch_unfold Let_def packet_nth del: upt_Suc map_append)
  have yd: "y ?d = push_bit 8 (uint (?pkt 4) AND 0xF) + uint (?pkt 5)"
    using assms by (simp add: read_touch_unfold Let_def packet_nth del: upt_Suc map_append)
  have "0 \<le> x ?d \<and> x ?d \<le> 4095" unfolding xd by (rule coordinate_range)
  moreover have "0 \<le> y ?d \<and> y ?d \<le> 4095" unfolding yd by (rule coordinate_range)
  ultimately show ?thesis using xd yd unfolding Let_def by blast
qed

theorem decode_coordinates_witness:
  "endTransmission_result env_ack
     (hw touched @ [Wire_beginTransmission
                      (uint (word_of_int (CST816S_ADDRESS example_header) :: 16 word)),
                    Wire_write 0x01]) = 0 \<and>
   x (data (read_touch example_header env_ack touched)) = 300 \<and>
   y (data (read_touch example_header env_ack touched)) = 612"
proof -
  have ok: "endTransmission_result env_ack
     (hw touched @ [Wire_beginTransmission
                      (uint (word_of_int (CST816S_ADDRESS example_header) :: 16 word)),
                    Wire_write 0x01]) = 0"
    by (simp add: env_ack_def)
  show ?thesis
    using ok decode_coordinates [OF ok]
    by (simp add: Let_def env_ack_received example_packet_def)
qed

text \<open>
  C3. After one or more edges (each a run of \<^verbatim>\<open>handleISR\<close>, none of which touches the
  bus), the next \<^verbatim>\<open>available()\<close> returns true and adds exactly one decode transaction to
  the trace: the address phase for register \<^verbatim>\<open>0x01\<close> and, when it completes, one request
  for six bytes and six reads. Every later \<^verbatim>\<open>available()\<close> without a new edge returns
  false and changes nothing.
\<close>

theorem edges_coalesce:
  assumes "0 < n"
  shows "let s1 = (handleISR ^^ n) s;
             (r, s2) = available h e s1
         in hw s1 = hw s \<and>
            r \<and>
            hw s2 =
              hw s @ [Wire_beginTransmission
                        (uint (word_of_int (CST816S_ADDRESS h) :: 16 word)),
                      Wire_write 0x01, Wire_endTransmission True] @
              (if endTransmission_result e
                    (hw s @ [Wire_beginTransmission
                               (uint (word_of_int (CST816S_ADDRESS h) :: 16 word)),
                             Wire_write 0x01]) = 0
               then Wire_requestFrom
                      (uint (word_of_int (CST816S_ADDRESS h) :: 16 word)) 6 True
                      # replicate 6 Wire_read
               else []) \<and>
            (\<forall>k. polls h e k s2 = (replicate k False, s2))"
proof -
  let ?s1 = "(handleISR ^^ n) s"
  let ?s2 = "(read_touch h e ?s1)\<lparr>event_available := False\<rparr>"
  have av: "available h e ?s1 = (True, ?s2)"
    using assms by (simp add: available_pending edges_flag)
  have tr: "hw ?s2 = hw (read_touch h e ?s1)" by simp
  have idle: "\<not> event_available ?s2" by simp
  show ?thesis
    unfolding Let_def av prod.case tr read_touch_hw edges_hw
    using polls_idle [OF idle] by simp
qed

theorem edges_coalesce_witness:
  "0 < (3::nat) \<and>
   fst (available example_header env_ack ((handleISR ^^ 3) touched)) \<and>
   hw (snd (available example_header env_ack ((handleISR ^^ 3) touched))) =
     [Wire_beginTransmission 0x15, Wire_write 0x01, Wire_endTransmission True,
      Wire_requestFrom 0x15 6 True] @ replicate 6 Wire_read \<and>
   polls example_header env_ack 2
     (snd (available example_header env_ack ((handleISR ^^ 3) touched))) =
     (replicate 2 False, snd (available example_header env_ack ((handleISR ^^ 3) touched)))"
proof -
  have pos: "0 < (3::nat)" by simp
  have tr0: "hw touched = []" by (simp add: touched_def)
  have ok: "endTransmission_result env_ack tr = 0" for tr by (simp add: env_ack_def)
  have a: "uint (word_of_int (CST816S_ADDRESS example_header) :: 16 word) = 0x15"
    by (simp add: example_header_def)
  show ?thesis
    using pos edges_coalesce [OF pos, of touched example_header env_ack]
    by (simp add: Let_def split_beta tr0 ok a)
qed

text \<open>
  C4. While the pending-event flag is unset, \<^verbatim>\<open>available()\<close> returns false and hands
  back the object as it was: no platform call is added to the trace, and the touch data
  and the flag are what they were.
\<close>

theorem available_idle:
  "\<not> event_available s \<Longrightarrow> available h e s = (False, s)"
  by (simp add: available_def)

theorem available_idle_witness:
  "\<not> event_available touched \<and>
   available example_header env_ack touched = (False, touched)"
  using available_idle [of touched example_header env_ack]
  by (simp add: touched_def)

text \<open>
  C5. For every integer \<open>seconds\<close>, \<^verbatim>\<open>set_auto_sleep_time\<close> issues one transaction that
  writes one byte to register \<^verbatim>\<open>0xF9\<close>, and the value of that byte is \<open>seconds\<close> clamped
  to the range from 1 to 255.
\<close>

theorem auto_sleep_time_clamped:
  "set_auto_sleep_time h e seconds s =
     s\<lparr>hw := hw s @
        [Wire_beginTransmission (uint (word_of_int (CST816S_ADDRESS h) :: byte)),
         Wire_write 0xF9, Wire_write (word_of_int (max 1 (min 255 seconds))),
         Wire_endTransmission True]\<rparr>
   \<and> uint (word_of_int (max 1 (min 255 seconds)) :: byte) = max 1 (min 255 seconds)"
proof -
  have "(if seconds < 1 then 1 else if seconds > 255 then 255 else seconds)
        = max 1 (min 255 seconds)"
    by (simp add: max_def min_def)
  then show ?thesis
    by (simp add: set_auto_sleep_time_def i2c_write_single Let_def clamp_byte)
qed

text \<open>The inputs 0, 1 and -5 write the byte 1; 255 and 300 write 255; 100 writes 100.\<close>

lemma auto_sleep_time_examples:
  "map (\<lambda>seconds. hw (set_auto_sleep_time example_header env_ack seconds touched))
     [0, 1, - 5, 255, 300, 100] =
   map (\<lambda>b. [Wire_beginTransmission 0x15, Wire_write 0xF9, Wire_write b,
             Wire_endTransmission True])
     [1, 1, 1, 255, 255, 100]"
  by (simp add: set_auto_sleep_time_def i2c_write_single Let_def touched_def
        example_header_def)

text \<open>
  C6, as amended. No configuration operation returns anything: each is \<^verbatim>\<open>void\<close>, issues
  its register write (for \<^verbatim>\<open>sleep\<close> after the reset pulse) and drops the status
  \<^verbatim>\<open>i2c_write\<close> computed. The object after the call is the object before it with the
  calls of the write appended to the trace, whatever the bus answered.
\<close>

theorem config_ops_discard_status:
  "let a = uint (word_of_int (CST816S_ADDRESS h) :: byte);
       reg_write = (\<lambda>reg val. [Wire_beginTransmission a, Wire_write reg, Wire_write val,
                                Wire_endTransmission True])
   in set_motion_mask h e m s = s\<lparr>hw := hw s @ reg_write 0xEC m\<rparr> \<and>
      set_irq_control h e m s = s\<lparr>hw := hw s @ reg_write 0xFA m\<rparr> \<and>
      enable_double_click h e s = s\<lparr>hw := hw s @ reg_write 0xEC 0x01\<rparr> \<and>
      enable_double_click_interrupt_only h e s =
        s\<lparr>hw := hw s @ reg_write 0xEC 0x01 @ reg_write 0xFA 0x10\<rparr> \<and>
      disable_auto_sleep h e s = s\<lparr>hw := hw s @ reg_write 0xFE 0xFE\<rparr> \<and>
      enable_auto_sleep h e s = s\<lparr>hw := hw s @ reg_write 0xFE 0x00\<rparr> \<and>
      set_auto_sleep_time h e seconds s =
        s\<lparr>hw := hw s @ reg_write 0xF9
                       (word_of_int (if seconds < 1 then 1
                                     else if seconds > 255 then 255 else seconds))\<rparr> \<and>
      sleep h e s =
        s\<lparr>hw := hw s @ [digitalWrite (rst s) LOW, delay 5, digitalWrite (rst s) HIGH, delay 50]
                    @ reg_write 0xA5 0x03\<rparr>"
  by (simp add: Let_def set_motion_mask_def set_irq_control_def enable_double_click_def
        enable_double_click_interrupt_only_def disable_auto_sleep_def enable_auto_sleep_def
        set_auto_sleep_time_def sleep_def i2c_write_single)

text \<open>
  C6 as stated fails: the same write of \<^verbatim>\<open>0x01\<close> to the motion mask completes on one bus
  (\<^verbatim>\<open>i2c_write\<close> computes 0) and fails on the other (\<^verbatim>\<open>i2c_write\<close> computes 255), and
  \<^verbatim>\<open>set_motion_mask\<close> hands its caller the same thing in both runs.
\<close>

theorem config_status_dropped_counterexample:
  "fst (i2c_write env_ack (word_of_int (CST816S_ADDRESS example_header)) 0xEC [0x01] 1
          (hw touched)) = 0 \<and>
   fst (i2c_write env_nack (word_of_int (CST816S_ADDRESS example_header)) 0xEC [0x01] 1
          (hw touched)) = 255 \<and>
   set_motion_mask example_header env_ack 0x01 touched =
   set_motion_mask example_header env_nack 0x01 touched"
  by (simp add: set_motion_mask_def i2c_write_single env_ack_def env_nack_def)

text \<open>
  C7. \<^verbatim>\<open>enable_double_click_interrupt_only\<close> adds exactly two single-byte register writes
  to the trace and nothing else: \<^verbatim>\<open>0x01\<close> to register \<^verbatim>\<open>0xEC\<close> first, then \<^verbatim>\<open>0x10\<close> to
  register \<^verbatim>\<open>0xFA\<close>.
\<close>

theorem double_click_interrupt_only_writes:
  "enable_double_click_interrupt_only h e s =
     s\<lparr>hw := hw s @
        [Wire_beginTransmission (uint (word_of_int (CST816S_ADDRESS h) :: byte)),
         Wire_write 0xEC, Wire_write 0x01, Wire_endTransmission True,
         Wire_beginTransmission (uint (word_of_int (CST816S_ADDRESS h) :: byte)),
         Wire_write 0xFA, Wire_write 0x10, Wire_endTransmission True]\<rparr>"
  by (simp add: enable_double_click_interrupt_only_def set_motion_mask_def
        set_irq_control_def i2c_write_single)

text \<open>
  C8. \<^verbatim>\<open>gesture()\<close> computes a string from the stored gesture byte alone and returns no
  changed object: with the enumerators pairwise different (as the labels of a
  \<^verbatim>\<open>switch\<close> must be), it is \<open>''DOUBLE CLICK''\<close> when the byte equals \<^verbatim>\<open>DOUBLE_CLICK\<close>, and
  \<open>''UNKNOWN''\<close> for every byte that is none of the eight enumerators; two objects with
  the same gesture byte get the same name.
\<close>

theorem gesture_lookup:
  assumes "distinct [NONE h, SWIPE_DOWN h, SWIPE_UP h, SWIPE_LEFT h, SWIPE_RIGHT h,
                     SINGLE_CLICK h, DOUBLE_CLICK h, LONG_PRESS h]"
  shows "(uint (gestureID (data s)) = DOUBLE_CLICK h \<longrightarrow> gesture h s = ''DOUBLE CLICK'') \<and>
         (uint (gestureID (data s)) \<notin> set [NONE h, SWIPE_DOWN h, SWIPE_UP h, SWIPE_LEFT h,
                                            SWIPE_RIGHT h, SINGLE_CLICK h, DOUBLE_CLICK h,
                                            LONG_PRESS h]
            \<longrightarrow> gesture h s = ''UNKNOWN'') \<and>
         (gestureID (data s') = gestureID (data s) \<longrightarrow> gesture h s' = gesture h s)"
proof (intro conjI impI)
  assume "uint (gestureID (data s)) = DOUBLE_CLICK h"
  with assms show "gesture h s = ''DOUBLE CLICK''"
    by (auto simp add: gesture_def Let_def)
next
  assume "uint (gestureID (data s)) \<notin> set [NONE h, SWIPE_DOWN h, SWIPE_UP h, SWIPE_LEFT h,
            SWIPE_RIGHT h, SINGLE_CLICK h, DOUBLE_CLICK h, LONG_PRESS h]"
  then show "gesture h s = ''UNKNOWN''"
    by (simp add: gesture_def Let_def)
next
  assume "gestureID (data s') = gestureID (data s)"
  then show "gesture h s' = gesture h s"
    by (simp add: gesture_def)
qed

theorem gesture_lookup_witness:
  "distinct [NONE example_header, SWIPE_DOWN example_header, SWIPE_UP example_header,
             SWIPE_LEFT example_header, SWIPE_RIGHT example_header,
             SINGLE_CLICK example_header, DOUBLE_CLICK example_header,
             LONG_PRESS example_header] \<and>
   gesture example_header (touched\<lparr>data := (data touched)\<lparr>gestureID := 0x0B\<rparr>\<rparr>)
     = ''DOUBLE CLICK'' \<and>
   gesture example_header (touched\<lparr>data := (data touched)\<lparr>gestureID := 0xFF\<rparr>\<rparr>)
     = ''UNKNOWN'' \<and>
   gesture example_header
     ((touched\<lparr>data := (data touched)\<lparr>gestureID := 0x0B\<rparr>\<rparr>)\<lparr>hw := [delay 5]\<rparr>)
     = gesture example_header (touched\<lparr>data := (data touched)\<lparr>gestureID := 0x0B\<rparr>\<rparr>)"
proof -
  have d: "distinct [NONE example_header, SWIPE_DOWN example_header, SWIPE_UP example_header,
             SWIPE_LEFT example_header, SWIPE_RIGHT example_header,
             SINGLE_CLICK example_header, DOUBLE_CLICK example_header,
             LONG_PRESS example_header]"
    by (simp add: example_header_def)
  show ?thesis
    using d
      gesture_lookup [OF d, of "touched\<lparr>data := (data touched)\<lparr>gestureID := 0x0B\<rparr>\<rparr>"
         "(touched\<lparr>data := (data touched)\<lparr>gestureID := 0x0B\<rparr>\<rparr>)\<lparr>hw := [delay 5]\<rparr>"]
      gesture_lookup [OF d, of "touched\<lparr>data := (data touched)\<lparr>gestureID := 0xFF\<rparr>\<rparr>"
         "touched\<lparr>data := (data touched)\<lparr>gestureID := 0xFF\<rparr>\<rparr>"]
    by (simp add: example_header_def)
qed

text \<open>
  C9. Given a buffer of at least \<open>len\<close> bytes, \<^verbatim>\<open>i2c_read\<close> returns a nonzero status
  exactly when the address phase ended with a nonzero completion status. In that case
  the caller's buffer is as it was, and neither a request nor a read was issued.
  Otherwise the first \<open>len\<close> bytes of the buffer are the \<open>len\<close> bytes read, in the order
  they were received, and the rest of the buffer is as it was.
\<close>

theorem i2c_read_contract:
  assumes "len \<le> length buf"
  shows "let st = endTransmission_result e
                    (tr @ [Wire_beginTransmission (uint addr), Wire_write reg_addr]);
             tr3 = tr @ [Wire_beginTransmission (uint addr), Wire_write reg_addr,
                         Wire_endTransmission True, Wire_requestFrom (uint addr) len True];
             (r, buf', tr') = i2c_read e addr reg_addr buf len tr
         in (r \<noteq> 0) = (st \<noteq> 0) \<and>
            (if st \<noteq> 0
             then buf' = buf \<and>
                  tr' = tr @ [Wire_beginTransmission (uint addr), Wire_write reg_addr,
                              Wire_endTransmission True]
             else length buf' = length buf \<and>
                  take len buf' = map (received e tr3) [0..<len] \<and>
                  drop len buf' = drop len buf \<and>
                  tr' = tr3 @ replicate len Wire_read)"
  using assms by (simp add: i2c_read_unfold [OF assms] Let_def)

theorem i2c_read_contract_witness:
  "(3::nat) \<le> length [7, 8, 9, 10 :: byte] \<and>
   i2c_read env_nack 0x15 0xA7 [7, 8, 9, 10] 3 [] =
     (255, [7, 8, 9, 10],
      [Wire_beginTransmission 0x15, Wire_write 0xA7, Wire_endTransmission True]) \<and>
   i2c_read env_ack 0x15 0xA7 [7, 8, 9, 10] 3 [] =
     (0, [0x0B, 0x01, 0x81, 10],
      [Wire_beginTransmission 0x15, Wire_write 0xA7, Wire_endTransmission True,
       Wire_requestFrom 0x15 3 True, Wire_read, Wire_read, Wire_read])"
  using i2c_read_contract [where len = 3 and buf = "[7, 8, 9, 10]" and e = env_nack
                             and tr = "[]" and addr = "0x15" and reg_addr = "0xA7"]
        i2c_read_contract [where len = 3 and buf = "[7, 8, 9, 10]" and e = env_ack
                             and tr = "[]" and addr = "0x15" and reg_addr = "0xA7"]
  by (simp add: i2c_read_def env_nack_def env_ack_def example_packet_def Let_def
        read_loop.simps)

text \<open>
  C10. \<^verbatim>\<open>i2c_read\<close> and \<^verbatim>\<open>i2c_write\<close> return 0 when \<^verbatim>\<open>Wire.endTransmission\<close> reported 0
  and 255 (the value -1 as a \<^verbatim>\<open>uint8_t\<close>) when it reported anything else; they return
  nothing but these two values, so the result is nonzero exactly when the transaction
  failed to complete.
\<close>

theorem transport_status_byte:
  "fst (i2c_read e addr reg_addr buf len tr) =
     (if endTransmission_result e
           (tr @ [Wire_beginTransmission (uint addr), Wire_write reg_addr]) = 0
      then 0 else 255)
   \<and> fst (i2c_write e addr' reg_addr' reg_data len' tr') =
     (if endTransmission_result e
           (write_loop 0 len' reg_data
              (tr' @ [Wire_beginTransmission (uint addr'), Wire_write reg_addr'])) = 0
      then 0 else 255)
   \<and> (fst (i2c_read e addr reg_addr buf len tr) = 0 \<or>
      fst (i2c_read e addr reg_addr buf len tr) = 255)
   \<and> (fst (i2c_write e addr' reg_addr' reg_data len' tr') = 0 \<or>
      fst (i2c_write e addr' reg_addr' reg_data len' tr') = 255)"
  by (simp add: i2c_read_def i2c_write_def Let_def split: prod.split)

end
